theory Spec2Isabelle
  imports Complex_Main "HOL-Library.Word"
begin

section \<open>JavaScript values used by the wallet\<close>

text \<open>
  A thrown value: the class name of the error object and its \<^verbatim>\<open>message\<close>.
  \<^verbatim>\<open>new Error(m)\<close> is \<open>JsError ''Error'' m\<close>; an error of the provider or of the cell
  library keeps its own class name.
\<close>

datatype js_error = JsError (err_name: string) (err_message: string)

definition Error :: "string \<Rightarrow> js_error" where
  "Error m = JsError ''Error'' m"

text \<open>
  \<^verbatim>\<open>Maybe<T> = T | null | undefined\<close>. The same type stands for a parameter typed
  \<^verbatim>\<open>Buffer\<close> or \<^verbatim>\<open>MessageRelaxed[]\<close> that the source tests with \<^verbatim>\<open>!x\<close>: an object is
  truthy, so the test holds exactly for \<^verbatim>\<open>null\<close> and \<^verbatim>\<open>undefined\<close>.
\<close>

datatype 'a maybe = Just 'a | Null | Undefined

text \<open>The operator \<^verbatim>\<open>a ?? b\<close>: \<open>b\<close> exactly when \<open>a\<close> is \<^verbatim>\<open>null\<close> or \<^verbatim>\<open>undefined\<close>.\<close>

fun nullish :: "'a maybe \<Rightarrow> 'a \<Rightarrow> 'a" where
  "nullish (Just a) b = a"
| "nullish Null b = b"
| "nullish Undefined b = b"

text \<open>
  A value of type \<^verbatim>\<open>number\<close>: a finite value, kept as an exact rational, or \<^verbatim>\<open>NaN\<close>.
  The comparisons are those of JavaScript (every comparison with \<^verbatim>\<open>NaN\<close> is false).
  The sum is exact, as the JavaScript sum is whenever both operands and the result are
  integers below \<open>2 ^ 53\<close> in magnitude; rounding of other sums and the two
  infinities are not modelled.
\<close>

datatype number = Num rat | NaN

fun js_lt :: "number \<Rightarrow> number \<Rightarrow> bool" where
  "js_lt (Num a) (Num b) = (a < b)"
| "js_lt _ _ = False"

fun js_gt :: "number \<Rightarrow> number \<Rightarrow> bool" where
  "js_gt (Num a) (Num b) = (a > b)"
| "js_gt _ _ = False"

fun js_add :: "number \<Rightarrow> number \<Rightarrow> number" where
  "js_add (Num a) (Num b) = Num (a + b)"
| "js_add _ _ = NaN"

type_synonym byte = "8 word"
type_synonym Buffer = "byte list"

section \<open>Cells, the builder and the reader\<close>

text \<open>
  Modelled from the spec: the cell library (\<^verbatim>\<open>ton-core\<close>) is imported by the wallet and
  is not part of its source. The cell, the builder with its writers and the reader of
  this section follow sections 3, 4.1 and 4.2 of the specification.
\<close>

datatype cell = Cell (cell_bits: "bool list") (cell_refs: "cell list") (is_exotic: bool)

text \<open>Big-endian, MSB-first bits of an unsigned value, and the value of such bits.\<close>

fun uint_bits :: "nat \<Rightarrow> nat \<Rightarrow> bool list" where
  "uint_bits 0 v = []"
| "uint_bits (Suc n) v = uint_bits n (v div 2) @ [odd v]"

definition bits_uint :: "bool list \<Rightarrow> nat" where
  "bits_uint bs = foldl (\<lambda>a b. 2 * a + (if b then 1 else 0)) 0 bs"

definition buffer_bits :: "Buffer \<Rightarrow> bool list" where
  "buffer_bits bytes = concat (map (\<lambda>b. uint_bits 8 (unat b)) bytes)"

fun bits_buffer :: "nat \<Rightarrow> bool list \<Rightarrow> Buffer" where
  "bits_buffer 0 bs = []"
| "bits_buffer (Suc n) bs = word_of_nat (bits_uint (take 8 bs)) # bits_buffer n (drop 8 bs)"

record Builder =
  b_bits :: "bool list"
  b_refs :: "cell list"

definition beginCell :: Builder where
  "beginCell = \<lparr>b_bits = [], b_refs = []\<rparr>"

text \<open>
  Modelled from the spec: the writers of the cell library (section 4.1). A write fails
  when it would exceed the 1023 bits of a cell.
\<close>

definition write_bits :: "bool list \<Rightarrow> Builder \<Rightarrow> js_error + Builder" where
  "write_bits bs b =
     (if length (b_bits b) + length bs > 1023
      then Inl (JsError ''RangeError'' ''cell capacity exceeded'')
      else Inr (b\<lparr>b_bits := b_bits b @ bs\<rparr>))"

text \<open>
  Modelled from the spec: \<^verbatim>\<open>storeUint(value, bits)\<close> fails with a RangeError if the
  value does not fit in \<open>bits\<close> bits (it is negative or at least \<open>2 ^ bits\<close>; a value
  that is no integer, such as \<^verbatim>\<open>NaN\<close>, fits in no width).
\<close>

fun storeUint :: "number \<Rightarrow> nat \<Rightarrow> Builder \<Rightarrow> js_error + Builder" where
  "storeUint (Num q) n b =
     (if q = of_int \<lfloor>q\<rfloor> \<and> 0 \<le> q \<and> q < 2 ^ n
      then write_bits (uint_bits n (nat \<lfloor>q\<rfloor>)) b
      else Inl (JsError ''RangeError'' ''value is out of range''))"
| "storeUint NaN n b = Inl (JsError ''RangeError'' ''value is out of range'')"

definition storeBuffer :: "Buffer \<Rightarrow> Builder \<Rightarrow> js_error + Builder" where
  "storeBuffer bytes b = write_bits (buffer_bits bytes) b"

definition storeBit :: "bool \<Rightarrow> Builder \<Rightarrow> js_error + Builder" where
  "storeBit v b = write_bits [v] b"

text \<open>
  Modelled from the spec: \<^verbatim>\<open>finalize()\<close> of section 4.2 (\<^verbatim>\<open>endCell\<close> in the source) fails
  with an OverflowError on more than 1023 bits.
\<close>

definition endCell :: "Builder \<Rightarrow> js_error + cell" where
  "endCell b =
     (if length (b_bits b) > 1023 then Inl (JsError ''OverflowError'' ''cell overflow'')
      else Inr (Cell (b_bits b) (b_refs b) False))"

text \<open>Sequencing of calls that may throw: the first exception ends the chain.\<close>

fun and_then :: "js_error + 'a \<Rightarrow> ('a \<Rightarrow> js_error + 'b) \<Rightarrow> js_error + 'b" where
  "and_then (Inl e) f = Inl e"
| "and_then (Inr a) f = f a"

text \<open>
  Modelled from the spec: the reader of section 4.1, a cursor over the remaining bits.
  A read fails with a RangeError if fewer bits remain than it asks for.
\<close>

definition loadUint :: "nat \<Rightarrow> bool list \<Rightarrow> js_error + (nat \<times> bool list)" where
  "loadUint n s =
     (if length s < n then Inl (JsError ''RangeError'' ''not enough bits'')
      else Inr (bits_uint (take n s), drop n s))"

definition loadBuffer :: "nat \<Rightarrow> bool list \<Rightarrow> js_error + (Buffer \<times> bool list)" where
  "loadBuffer n s =
     (if length s < 8 * n then Inl (JsError ''RangeError'' ''not enough bits'')
      else Inr (bits_buffer n (take (8 * n) s), drop (8 * n) s))"

definition loadBit :: "bool list \<Rightarrow> js_error + (bool \<times> bool list)" where
  "loadBit s =
     (case s of [] \<Rightarrow> Inl (JsError ''RangeError'' ''not enough bits'')
      | b # rest \<Rightarrow> Inr (b, rest))"

record WalletState =
  ws_seqno :: nat
  ws_wallet_id :: nat
  ws_public_key :: Buffer
  ws_plugins_empty_flag :: bool

text \<open>
  Modelled from the spec: decoding a data cell by the WalletState layout of section 3
  (seqno: uint32, wallet_id: uint32, public_key: 32 bytes, plugins_empty_flag: 1 bit).
\<close>

definition decode_WalletState :: "cell \<Rightarrow> js_error + WalletState" where
  "decode_WalletState c =
     and_then (loadUint 32 (cell_bits c)) (\<lambda>(seqno, s1).
     and_then (loadUint 32 s1) (\<lambda>(wid, s2).
     and_then (loadBuffer 32 s2) (\<lambda>(key, s3).
     and_then (loadBit s3) (\<lambda>(flag, s4).
       Inr \<lparr>ws_seqno = seqno, ws_wallet_id = wid, ws_public_key = key,
            ws_plugins_empty_flag = flag\<rparr>))))"

section \<open>Address derivation\<close>

record Address =
  a_workchain :: number
  a_hash :: "256 word"

text \<open>
  What the wallet takes from outside its source: the decoder of the embedded code
  (\<^verbatim>\<open>Cell.fromBoc(Buffer.from(s, 'base64'))\<close>, \<open>Inl\<close> when it throws), the hash of a
  cell, the constant \<^verbatim>\<open>SendMode.PAY_GAS_SEPARATELY\<close>, \<^verbatim>\<open>readNumber\<close> on the stack that a
  get-method returns, and the signer \<^verbatim>\<open>createWalletTransferV4\<close>.
\<close>

record 'm WalletTransferArgs =
  s_seqno :: number
  s_sendMode :: number
  s_secretKey :: Buffer
  s_messages :: "'m list"
  s_timeout :: "number maybe"
  s_walletId :: number

record ('m, 'r) deps =
  fromBoc :: "string \<Rightarrow> js_error + cell list"
  cell_hash :: "cell \<Rightarrow> 256 word"
  PAY_GAS_SEPARATELY :: number
  readNumber :: "'r \<Rightarrow> js_error + number"
  createWalletTransferV4 :: "'m WalletTransferArgs \<Rightarrow> js_error + cell"

text \<open>
  Modelled from the spec: \<^verbatim>\<open>contractAddress\<close> of section 4.5. The state-init cell has
  the flag bits (no split depth, no special, has code, has data, no library) and the
  references to code and data; the address is the workchain with the hash of that cell.
  The code is a \<open>cell option\<close> because the source takes element 0 of the decoded list,
  which is \<^verbatim>\<open>undefined\<close> for an empty list; the has-code flag is then clear. The check
  of the workchain that section 4.5 mentions is the guard of the wallet's constructor.
\<close>

definition stateInit :: "cell option \<Rightarrow> cell \<Rightarrow> cell" where
  "stateInit code data =
     Cell [False, False, code \<noteq> None, True, False]
       ((case code of None \<Rightarrow> [] | Some c \<Rightarrow> [c]) @ [data]) False"

definition contractAddress ::
  "('m, 'r) deps \<Rightarrow> number \<Rightarrow> cell option \<Rightarrow> cell \<Rightarrow> Address" where
  "contractAddress tc workchain code data =
     \<lparr>a_workchain = workchain, a_hash = cell_hash tc (stateInit code data)\<rparr>"

section \<open>The wallet contract\<close>

text \<open>
  \<^verbatim>\<open>try { ... } catch (error) { throw new Error(`ctx${error.message}`) }\<close> around a
  computation with result \<open>r\<close>.
\<close>

definition rethrow :: "string \<Rightarrow> js_error + 'a \<Rightarrow> js_error + 'a" where
  "rethrow ctx r =
     (case r of Inl error \<Rightarrow> Inl (Error (ctx @ err_message error)) | Inr v \<Rightarrow> Inr v)"

text \<open>The embedded code of the wallet, a bag of cells in base64.\<close>

definition WALLET_CODE_BASE64 :: string where
  "WALLET_CODE_BASE64 =
     ''te6ccgECFAEAAtQAART/APSkE/S88sgLAQIBIAIDAgFIBAUE+PKDCNcYINMf0x/THwL4I7vyZO1E0NMf'' @
     ''0x/T//QE0VFDuvKhUVG68qIF+QFUEGT5EPKj+AAkpMjLH1JAyx9SMMv/UhD0AMntVPgPAdMHIcAAn2xR'' @
     ''kyDXSpbTB9QC+wDoMOAhwAHjACHAAuMAAcADkTDjDQOkyMsfEssfy/8QERITAubQAdDTAyFxsJJfBOAi'' @
     ''10nBIJJfBOAC0x8hghBwbHVnvSKCEGRzdHK9sJJfBeAD+kAwIPpEAcjKB8v/ydDtRNCBAUDXIfQEMFyB'' @
     ''AQj0Cm+hMbOSXwfgBdM/yCWCEHBsdWe6kjgw4w0DghBkc3RyupJfBuMNBgcCASAICQB4AfoA9AQw+Cdv'' @
     ''IjBQCqEhvvLgUIIQcGx1Z4MesXCAGFAEywUmzxZY+gIZ9ADLaRfLH1Jgyz8gyYBA+wAGAIpQBIEBCPRZ'' @
     ''MO1E0IEBQNcgyAHPFvQAye1UAXKwjiOCEGRzdHKDHrFwgBhQBcsFUAPPFiP6AhPLassfyz/JgED7AJJf'' @
     ''A+ICASAKCwBZvSQrb2omhAgKBrkPoCGEcNQICEekk30pkQzmkD6f+YN4EoAbeBAUiYcVnzGEAgFYDA0A'' @
     ''EbjJftRNDXCx+AA9sp37UTQgQFA1yH0BDACyMoHy//J0AGBAQj0Cm+hMYAIBIA4PABmtznaiaEAga5Dr'' @
     ''hf/AABmvHfaiaEAQa5DrhY/AAG7SB/oA1NQi+QAFyMoHFcv/ydB3dIAYyMsFywIizxZQBfoCFMtrEszM'' @
     ''yXP7AMhAFIEBCPRR8qcCAHCBAQjXGPoA0z/IVCBHgQEI9FHyp4IQbm90ZXB0gBjIywXLAlAGzxZQBPoC'' @
     ''FMtqEssfyz/Jc/sAAgBsgQEI1xj6ANM/MFIkgQEI9Fnyp4IQZHN0cnB0gBjIywXLAlAFzxZQA/oCE8tq'' @
     ''yx8Syz/Jc/sAAAr0AMntVA==''"

record Init =
  code :: "cell option"
  data :: cell

record WalletContractV4 =
  workchain :: number
  publicKey :: Buffer
  address :: Address
  walletId :: number
  init :: Init

text \<open>
  \<^verbatim>\<open>Cell.fromBoc(...)[0]\<close>: element 0 of a JavaScript array, \<^verbatim>\<open>undefined\<close> (here \<open>None\<close>)
  when the array is empty.
\<close>

fun element0 :: "'a list \<Rightarrow> 'a option" where
  "element0 [] = None"
| "element0 (x # xs) = Some x"

definition buildCode :: "('m, 'r) deps \<Rightarrow> js_error + cell option" where
  "buildCode tc =
     rethrow ''Failed to build code cell: ''
       (and_then (fromBoc tc WALLET_CODE_BASE64) (\<lambda>cells. Inr (element0 cells)))"

definition buildData :: "number \<Rightarrow> Buffer \<Rightarrow> js_error + cell" where
  "buildData wid key =
     rethrow ''Failed to build data cell: ''
       (and_then (and_then (and_then (and_then
          (storeUint (Num 0) 32 beginCell)
          (storeUint wid 32))
          (storeBuffer key))
          (storeBit False))
          endCell)"

text \<open>The private constructor; \<open>Inl\<close> is the exception it throws.\<close>

definition constructor ::
  "('m, 'r) deps \<Rightarrow> number \<Rightarrow> Buffer maybe \<Rightarrow> number maybe \<Rightarrow> js_error + WalletContractV4"
  where
  "constructor tc wc key wid =
     (if js_lt wc (Num (- 1)) \<or> js_gt wc (Num 0)
      then Inl (Error ''Invalid workchain ID: must be -1 or 0'')
      else case key of
        Just pk \<Rightarrow>
          if length pk \<noteq> 32 then Inl (Error ''Invalid public key: must be 32 bytes'')
          else
            let wid' = nullish wid (js_add (Num 698983191) wc) in
            and_then (buildCode tc) (\<lambda>c.
            and_then (buildData wid' pk) (\<lambda>d.
              Inr \<lparr>workchain = wc, publicKey = pk,
                   address = contractAddress tc wc c d,
                   walletId = wid', init = \<lparr>code = c, data = d\<rparr>\<rparr>))
      | _ \<Rightarrow> Inl (Error ''Invalid public key: must be 32 bytes''))"

text \<open>\<^verbatim>\<open>create(args)\<close> with the three fields of \<open>args\<close> as its arguments.\<close>

definition create ::
  "('m, 'r) deps \<Rightarrow> number \<Rightarrow> Buffer maybe \<Rightarrow> number maybe \<Rightarrow> js_error + WalletContractV4"
  where
  "create tc wc key wid = constructor tc wc key wid"

section \<open>The provider and the methods that call it\<close>

record ContractState =
  balance :: int
  state_type :: string

text \<open>
  The provider is an outside party with a state of its own (the network): each call
  returns a result, \<open>Inl\<close> when the promise rejects, and the provider's next state.
\<close>

record ('s, 't, 'r) ContractProvider =
  getState :: "'s \<Rightarrow> (js_error + ContractState) \<times> 's"
  get :: "string \<Rightarrow> 't list \<Rightarrow> 's \<Rightarrow> (js_error + 'r) \<times> 's"
  external :: "cell \<Rightarrow> 's \<Rightarrow> (js_error + unit) \<times> 's"

text \<open>
  The calls a method makes to the provider and to the signer are recorded in order, so
  that which calls happen, and how often, can be stated.
\<close>

datatype ('t, 'm) call =
    Call_getState
  | Call_get string "'t list"
  | Call_external cell
  | Call_createWalletTransferV4 "'m WalletTransferArgs"

record ('s, 't, 'm) world =
  pstate :: 's
  calls :: "('t, 'm) call list"

definition call_getState ::
  "('s, 't, 'r) ContractProvider \<Rightarrow> ('s, 't, 'm) world
     \<Rightarrow> (js_error + ContractState) \<times> ('s, 't, 'm) world" where
  "call_getState provider w =
     (case getState provider (pstate w) of
        (r, s) \<Rightarrow> (r, \<lparr>pstate = s, calls = calls w @ [Call_getState]\<rparr>))"

definition call_get ::
  "('s, 't, 'r) ContractProvider \<Rightarrow> string \<Rightarrow> 't list \<Rightarrow> ('s, 't, 'm) world
     \<Rightarrow> (js_error + 'r) \<times> ('s, 't, 'm) world" where
  "call_get provider name args w =
     (case get provider name args (pstate w) of
        (r, s) \<Rightarrow> (r, \<lparr>pstate = s, calls = calls w @ [Call_get name args]\<rparr>))"

definition call_external ::
  "('s, 't, 'r) ContractProvider \<Rightarrow> cell \<Rightarrow> ('s, 't, 'm) world
     \<Rightarrow> (js_error + unit) \<times> ('s, 't, 'm) world" where
  "call_external provider message w =
     (case external provider message (pstate w) of
        (r, s) \<Rightarrow> (r, \<lparr>pstate = s, calls = calls w @ [Call_external message]\<rparr>))"

definition getBalance ::
  "('s, 't, 'r) ContractProvider \<Rightarrow> ('s, 't, 'm) world
     \<Rightarrow> (js_error + int) \<times> ('s, 't, 'm) world" where
  "getBalance provider w =
     (case call_getState provider w of
        (r, w1) \<Rightarrow>
          (rethrow ''Failed to get balance: '' (and_then r (\<lambda>state. Inr (balance state))), w1))"

definition getSeqno ::
  "('m, 'r) deps \<Rightarrow> ('s, 't, 'r) ContractProvider \<Rightarrow> ('s, 't, 'm) world
     \<Rightarrow> (js_error + number) \<times> ('s, 't, 'm) world" where
  "getSeqno tc provider w =
     (case call_getState provider w of
        (Inl error, w1) \<Rightarrow> (rethrow ''Failed to get seqno: '' (Inl error), w1)
      | (Inr state, w1) \<Rightarrow>
          if state_type state = ''active'' then
            (case call_get provider ''seqno'' [] w1 of
               (res, w2) \<Rightarrow>
                 (rethrow ''Failed to get seqno: '' (and_then res (readNumber tc)), w2))
          else (rethrow ''Failed to get seqno: '' (Inr (Num 0)), w1))"

definition send ::
  "('s, 't, 'r) ContractProvider \<Rightarrow> cell \<Rightarrow> ('s, 't, 'm) world
     \<Rightarrow> (js_error + unit) \<times> ('s, 't, 'm) world" where
  "send provider message w =
     (case call_external provider message w of
        (r, w1) \<Rightarrow> (rethrow ''Failed to send message: '' r, w1))"

section \<open>Transfers\<close>

record 'm TransferArgs =
  seqno :: number
  secretKey :: "Buffer maybe"
  messages :: "'m list maybe"
  sendMode :: "number maybe"
  timeout :: "number maybe"

definition createTransfer ::
  "('m, 'r) deps \<Rightarrow> WalletContractV4 \<Rightarrow> 'm TransferArgs \<Rightarrow> ('s, 't, 'm) world
     \<Rightarrow> (js_error + cell) \<times> ('s, 't, 'm) world" where
  "createTransfer tc this args w =
     (case secretKey args of
        Just sk \<Rightarrow>
          if length sk \<noteq> 64 then (Inl (Error ''Invalid secret key: must be 64 bytes''), w)
          else
            (case messages args of
               Just ms \<Rightarrow>
                 if length ms = 0 then (Inl (Error ''No messages to send''), w)
                 else
                   let mode = nullish (sendMode args) (PAY_GAS_SEPARATELY tc);
                       a = \<lparr>s_seqno = seqno args, s_sendMode = mode, s_secretKey = sk,
                            s_messages = ms, s_timeout = timeout args,
                            s_walletId = walletId this\<rparr>
                   in (createWalletTransferV4 tc a,
                       w\<lparr>calls := calls w @ [Call_createWalletTransferV4 a]\<rparr>)
             | _ \<Rightarrow> (Inl (Error ''No messages to send''), w))
      | _ \<Rightarrow> (Inl (Error ''Invalid secret key: must be 64 bytes''), w))"

definition sendTransfer ::
  "('m, 'r) deps \<Rightarrow> WalletContractV4 \<Rightarrow> ('s, 't, 'r) ContractProvider \<Rightarrow> 'm TransferArgs
     \<Rightarrow> ('s, 't, 'm) world \<Rightarrow> (js_error + unit) \<times> ('s, 't, 'm) world" where
  "sendTransfer tc this provider args w =
     (case createTransfer tc this args w of
        (Inl error, w1) \<Rightarrow> (rethrow ''Failed to send transfer: '' (Inl error), w1)
      | (Inr transfer, w1) \<Rightarrow>
          (case send provider transfer w1 of
             (r, w2) \<Rightarrow> (rethrow ''Failed to send transfer: '' r, w2)))"

section \<open>Concrete collaborators\<close>

text \<open>
  Instances of the outside parties, on which the theorems below are run: a cell
  library whose decoder returns one cell, and four providers over a state that counts
  the calls they have answered.
\<close>

definition example_deps :: "(nat, nat) deps" where
  "example_deps =
     \<lparr>fromBoc = (\<lambda>s. Inr [Cell [True] [] False]),
      cell_hash = (\<lambda>c. word_of_nat (bits_uint (cell_bits c))),
      PAY_GAS_SEPARATELY = Num 1,
      readNumber = (\<lambda>r. Inr (Num (of_nat r))),
      createWalletTransferV4 = (\<lambda>a. Inr (Cell [False] [] False))\<rparr>"

definition network_down :: js_error where
  "network_down = JsError ''TransportError'' ''network down''"

definition offline_provider :: "(nat, nat, nat) ContractProvider" where
  "offline_provider =
     \<lparr>getState = (\<lambda>s. (Inl network_down, Suc s)),
      get = (\<lambda>name args s. (Inl network_down, Suc s)),
      external = (\<lambda>message s. (Inl network_down, Suc s))\<rparr>"

definition uninit_provider :: "(nat, nat, nat) ContractProvider" where
  "uninit_provider =
     \<lparr>getState = (\<lambda>s. (Inr \<lparr>balance = 0, state_type = ''uninit''\<rparr>, Suc s)),
      get = (\<lambda>name args s. (Inl (JsError ''Error'' ''account is not active''), Suc s)),
      external = (\<lambda>message s. (Inr (), Suc s))\<rparr>"

definition active_provider :: "(nat, nat, nat) ContractProvider" where
  "active_provider =
     \<lparr>getState = (\<lambda>s. (Inr \<lparr>balance = 5, state_type = ''active''\<rparr>, Suc s)),
      get = (\<lambda>name args s. (Inr 7, Suc s)),
      external = (\<lambda>message s. (Inr (), Suc s))\<rparr>"

definition flaky_provider :: "(nat, nat, nat) ContractProvider" where
  "flaky_provider =
     \<lparr>getState = (\<lambda>s. (Inr \<lparr>balance = 5, state_type = ''active''\<rparr>, Suc s)),
      get = (\<lambda>name args s. (Inl network_down, Suc s)),
      external = (\<lambda>message s. (Inl network_down, Suc s))\<rparr>"

definition world0 :: "(nat, nat, nat) world" where
  "world0 = \<lparr>pstate = 0, calls = []\<rparr>"

definition zero_key :: Buffer where
  "zero_key = replicate 32 0"

definition example_wallet :: WalletContractV4 where
  "example_wallet =
     \<lparr>workchain = Num 0, publicKey = zero_key,
      address = \<lparr>a_workchain = Num 0, a_hash = 0\<rparr>,
      walletId = Num 698983191,
      init = \<lparr>code = None, data = Cell [] [] False\<rparr>\<rparr>"

definition example_transfer :: "nat TransferArgs" where
  "example_transfer =
     \<lparr>seqno = Num 3, secretKey = Just (replicate 64 0), messages = Just [1],
      sendMode = Undefined, timeout = Null\<rparr>"

section \<open>Bits and bytes\<close>

lemma length_uint_bits: "length (uint_bits n v) = n"
  by (induction n arbitrary: v) auto

lemma bits_uint_snoc: "bits_uint (bs @ [b]) = 2 * bits_uint bs + (if b then 1 else 0)"
  by (simp add: bits_uint_def)

lemma bits_uint_uint_bits: "v < 2 ^ n \<Longrightarrow> bits_uint (uint_bits n v) = v"
proof (induction n arbitrary: v)
  case 0
  then show ?case by (simp add: bits_uint_def)
next
  case (Suc n)
  from Suc.prems have "v div 2 < 2 ^ n" by auto
  then have "bits_uint (uint_bits n (v div 2)) = v div 2" by (rule Suc.IH)
  then show ?case by (simp add: bits_uint_snoc)
qed

lemma length_buffer_bits: "length (buffer_bits bs) = 8 * length bs"
  by (induction bs) (auto simp: buffer_bits_def length_uint_bits)

lemma buffer_bits_Cons: "buffer_bits (b # bs) = uint_bits 8 (unat b) @ buffer_bits bs"
  by (simp add: buffer_bits_def)

lemma byte_roundtrip: "word_of_nat (bits_uint (uint_bits 8 (unat b))) = (b :: byte)"
proof -
  have "unat b < 2 ^ 8" using unsigned_less [of b, where ?'a = nat] by simp
  then show ?thesis by (simp add: bits_uint_uint_bits)
qed

lemma bits_buffer_buffer_bits: "bits_buffer (length bs) (buffer_bits bs) = bs"
  by (induction bs) (simp_all add: buffer_bits_Cons length_uint_bits byte_roundtrip)

section \<open>The data cell\<close>

lemma buildData_ok:
  assumes "n < 2 ^ 32" "length pk = 32"
  shows "buildData (Num (of_nat n)) pk =
           Inr (Cell (uint_bits 32 0 @ uint_bits 32 n @ buffer_bits pk @ [False]) [] False)"
proof -
  have q: "(of_nat n :: rat) < 2 ^ 32"
    using assms(1) by (metis of_nat_less_iff of_nat_numeral of_nat_power)
  show ?thesis
    using assms(2) q
    by (simp add: buildData_def rethrow_def beginCell_def write_bits_def storeBuffer_def
        storeBit_def endCell_def length_uint_bits length_buffer_bits)
qed

lemma store_seqno:
  "write_bits (uint_bits 32 0) beginCell = Inr \<lparr>b_bits = uint_bits 32 0, b_refs = []\<rparr>"
  by (simp add: beginCell_def write_bits_def length_uint_bits)

lemma buildData_Inr:
  assumes "buildData v pk = Inr c" "length pk = 32"
  shows "\<exists>n<2 ^ 32. v = Num (of_nat n)"
proof (cases v)
  case NaN
  with assms show ?thesis
    by (simp add: buildData_def rethrow_def store_seqno)
next
  case (Num q)
  have ok: "q = of_int \<lfloor>q\<rfloor> \<and> 0 \<le> q \<and> q < 2 ^ 32"
  proof (rule ccontr)
    assume "\<not> ?thesis"
    then have "storeUint (Num q) 32 b = Inl (JsError ''RangeError'' ''value is out of range'')" for b
      by auto
    with assms Num show False
      by (simp add: buildData_def rethrow_def store_seqno)
  qed
  then have "0 \<le> \<lfloor>q\<rfloor>" by simp
  then have "q = of_nat (nat \<lfloor>q\<rfloor>)" using ok by (metis of_int_of_nat_eq int_nat_eq)
  moreover have "nat \<lfloor>q\<rfloor> < 2 ^ 32"
  proof -
    have "\<lfloor>q\<rfloor> < 2 ^ 32" using ok by (simp add: floor_less_iff)
    then show ?thesis using \<open>0 \<le> \<lfloor>q\<rfloor>\<close> by (simp add: nat_less_iff)
  qed
  ultimately show ?thesis using Num by blast
qed

lemma decode_data_cell:
  assumes "n < 2 ^ 32" "length pk = 32"
  shows "decode_WalletState (Cell (uint_bits 32 0 @ uint_bits 32 n @ buffer_bits pk @ [False]) [] False)
       = Inr \<lparr>ws_seqno = 0, ws_wallet_id = n, ws_public_key = pk, ws_plugins_empty_flag = False\<rparr>"
proof -
  have b: "bits_buffer 32 (buffer_bits pk) = pk"
    using bits_buffer_buffer_bits [of pk] assms(2) by simp
  show ?thesis
    using assms
    by (simp add: decode_WalletState_def loadUint_def loadBuffer_def loadBit_def
        length_uint_bits length_buffer_bits bits_uint_uint_bits b)
qed

section \<open>Construction\<close>

lemma buildCode_ok:
  "fromBoc tc WALLET_CODE_BASE64 = Inr cells \<Longrightarrow> buildCode tc = Inr (element0 cells)"
  by (simp add: buildCode_def rethrow_def)

lemma create_valid:
  assumes "wc = Num (- 1) \<or> wc = Num 0" "length pk = 32"
  shows "create tc wc (Just pk) wid =
           and_then (buildCode tc) (\<lambda>c.
           and_then (buildData (nullish wid (js_add (Num 698983191) wc)) pk) (\<lambda>d.
             Inr \<lparr>workchain = wc, publicKey = pk, address = contractAddress tc wc c d,
                  walletId = nullish wid (js_add (Num 698983191) wc),
                  init = \<lparr>code = c, data = d\<rparr>\<rparr>))"
  using assms by (auto simp: create_def constructor_def Let_def)

lemma create_Inr:
  assumes "create tc wc key wid = Inr wallet"
  shows "\<exists>pk c. key = Just pk \<and> length pk = 32 \<and> buildCode tc = Inr c
           \<and> buildData (walletId wallet) pk = Inr (data (init wallet))
           \<and> code (init wallet) = c \<and> workchain wallet = wc \<and> publicKey wallet = pk
           \<and> walletId wallet = nullish wid (js_add (Num 698983191) wc)
           \<and> address wallet = contractAddress tc wc c (data (init wallet))"
proof (cases key)
  case (Just pk)
  show ?thesis
  proof (cases "buildCode tc")
    case (Inl e)
    with assms Just show ?thesis
      by (simp add: create_def constructor_def split: if_splits)
  next
    case (Inr c)
    show ?thesis
    proof (cases "buildData (nullish wid (js_add (Num 698983191) wc)) pk")
      case (Inl e)
      with assms Just Inr show ?thesis
        by (simp add: create_def constructor_def split: if_splits)
    next
      case d: (Inr d)
      with assms Just Inr show ?thesis
        by (auto simp: create_def constructor_def split: if_splits)
    qed
  qed
next
  case Null
  with assms show ?thesis by (simp add: create_def constructor_def split: if_splits)
next
  case Undefined
  with assms show ?thesis by (simp add: create_def constructor_def split: if_splits)
qed

lemma create_omitted:
  assumes "q = - 1 \<or> q = 0" and "length pk = 32" and "wid = Undefined \<or> wid = Null"
    and "fromBoc tc WALLET_CODE_BASE64 = Inr cells"
  shows "\<exists>d. create tc (Num q) (Just pk) wid =
           Inr \<lparr>workchain = Num q, publicKey = pk,
                address = contractAddress tc (Num q) (element0 cells) d,
                walletId = Num (698983191 + q),
                init = \<lparr>code = element0 cells, data = d\<rparr>\<rparr>"
proof -
  have v: "nullish wid (js_add (Num 698983191) (Num q)) = Num (698983191 + q)"
    using assms(3) by auto
  have "698983191 + q = rat_of_nat 698983190 \<or> 698983191 + q = rat_of_nat 698983191"
    using assms(1) by auto
  then obtain n :: nat where n: "698983191 + q = of_nat n" "n < 2 ^ 32"
    by (elim disjE) (rule that, assumption, simp)+
  have wc: "Num q = Num (- 1) \<or> Num q = Num 0"
    using assms(1) by simp
  have d: "buildData (Num (698983191 + q)) pk =
      Inr (Cell (uint_bits 32 0 @ uint_bits 32 n @ buffer_bits pk @ [False]) [] False)"
    using buildData_ok [OF n(2) assms(2)] n(1) by simp
  show ?thesis
    unfolding create_valid [OF wc assms(2)] v
    by (simp add: buildCode_ok [OF assms(4)] d)
qed

lemma example_decodes:
  "fromBoc example_deps WALLET_CODE_BASE64 = Inr [Cell [True] [] False]"
  by (simp add: example_deps_def)

lemma length_zero_key: "length zero_key = 32"
  by (simp add: zero_key_def)

text \<open>
  Claim C2. For workchain \<open>-1\<close> or \<open>0\<close>, a public key of 32 bytes and a wallet id left
  out (\<^verbatim>\<open>undefined\<close> or \<^verbatim>\<open>null\<close>), \<open>create\<close> returns a wallet whose wallet id is
  \<open>698983191 + workchain\<close>, provided the embedded code decodes; for workchain \<open>-1\<close>
  that is \<open>698983190\<close>.
\<close>

theorem create_default_walletId:
  assumes "q = - 1 \<or> q = 0" and "length pk = 32" and "wid = Undefined \<or> wid = Null"
    and "fromBoc tc WALLET_CODE_BASE64 = Inr cells"
  shows "\<exists>wallet. create tc (Num q) (Just pk) wid = Inr wallet
           \<and> walletId wallet = Num (698983191 + q)"
  using create_omitted [OF assms] by auto

theorem create_default_walletId_witness:
  "length zero_key = 32 \<and>
   (\<exists>wallet. create example_deps (Num (- 1)) (Just zero_key) Undefined = Inr wallet
      \<and> walletId wallet = Num 698983190)"
  using create_default_walletId [of "- 1" zero_key Undefined example_deps,
      OF _ length_zero_key _ example_decodes] length_zero_key
  by simp

text \<open>
  Claim C1. For workchain \<open>-1\<close> or \<open>0\<close> and a public key of 32 bytes, the data cell of
  every wallet that \<open>create\<close> returns holds, in this order, the 32 bits of the unsigned
  integer 0 (seqno), the 32 bits of the wallet id, the bytes of the public key and one
  0 bit, and nothing else; read back by the WalletState layout it gives seqno 0, the
  wallet id, the key and flag 0. For workchain 0 with the wallet id left out, \<open>create\<close>
  returns a wallet (when the embedded code decodes) and its data cell reads back with
  wallet id 698983191.
\<close>

theorem create_data_cell_layout:
  assumes "wc = Num (- 1) \<or> wc = Num 0" and "length pk = 32"
  shows "(\<forall>wallet. create tc wc (Just pk) wid = Inr wallet \<longrightarrow>
            (\<exists>n<2 ^ 32. walletId wallet = Num (of_nat n)
               \<and> data (init wallet) =
                   Cell (uint_bits 32 0 @ uint_bits 32 n @ buffer_bits pk @ [False]) [] False
               \<and> decode_WalletState (data (init wallet)) =
                   Inr \<lparr>ws_seqno = 0, ws_wallet_id = n, ws_public_key = pk,
                        ws_plugins_empty_flag = False\<rparr>))
       \<and> (wc = Num 0 \<and> (wid = Undefined \<or> wid = Null)
              \<and> (\<exists>cells. fromBoc tc WALLET_CODE_BASE64 = Inr cells) \<longrightarrow>
            (\<exists>wallet. create tc wc (Just pk) wid = Inr wallet
               \<and> decode_WalletState (data (init wallet)) =
                   Inr \<lparr>ws_seqno = 0, ws_wallet_id = 698983191, ws_public_key = pk,
                        ws_plugins_empty_flag = False\<rparr>))"
proof (intro conjI allI impI)
  fix wallet
  assume c: "create tc wc (Just pk) wid = Inr wallet"
  from create_Inr [OF c]
  have d: "buildData (walletId wallet) pk = Inr (data (init wallet))" by auto
  from buildData_Inr [OF d assms(2)]
  obtain n where n: "n < 2 ^ 32" "walletId wallet = Num (of_nat n)" by blast
  have cell: "data (init wallet) =
      Cell (uint_bits 32 0 @ uint_bits 32 n @ buffer_bits pk @ [False]) [] False"
    using d buildData_ok [OF n(1) assms(2)] n(2) by simp
  show "\<exists>n<2 ^ 32. walletId wallet = Num (of_nat n)
               \<and> data (init wallet) =
                   Cell (uint_bits 32 0 @ uint_bits 32 n @ buffer_bits pk @ [False]) [] False
               \<and> decode_WalletState (data (init wallet)) =
                   Inr \<lparr>ws_seqno = 0, ws_wallet_id = n, ws_public_key = pk,
                        ws_plugins_empty_flag = False\<rparr>"
    using n cell decode_data_cell [OF n(1) assms(2)] by auto
next
  assume a: "wc = Num 0 \<and> (wid = Undefined \<or> wid = Null)
              \<and> (\<exists>cells. fromBoc tc WALLET_CODE_BASE64 = Inr cells)"
  then obtain cells where f: "fromBoc tc WALLET_CODE_BASE64 = Inr cells" by blast
  from a have v: "nullish wid (js_add (Num 698983191) wc) = Num (of_nat 698983191)"
    by auto
  have n: "(698983191 :: nat) < 2 ^ 32" by simp
  note d = buildData_ok [OF n assms(2)]
  have c: "create tc wc (Just pk) wid =
      Inr \<lparr>workchain = wc, publicKey = pk,
           address = contractAddress tc wc (element0 cells)
             (Cell (uint_bits 32 0 @ uint_bits 32 698983191 @ buffer_bits pk @ [False]) [] False),
           walletId = Num (of_nat 698983191),
           init = \<lparr>code = element0 cells,
             data = Cell (uint_bits 32 0 @ uint_bits 32 698983191 @ buffer_bits pk @ [False]) [] False\<rparr>\<rparr>"
    unfolding create_valid [OF assms] v
    by (simp only: buildCode_ok [OF f] d and_then.simps)
  show "\<exists>wallet. create tc wc (Just pk) wid = Inr wallet
               \<and> decode_WalletState (data (init wallet)) =
                   Inr \<lparr>ws_seqno = 0, ws_wallet_id = 698983191, ws_public_key = pk,
                        ws_plugins_empty_flag = False\<rparr>"
    unfolding c using decode_data_cell [OF n assms(2)] by simp
qed

theorem create_data_cell_layout_witness:
  "length zero_key = 32 \<and>
   (\<exists>wallet. create example_deps (Num 0) (Just zero_key) Undefined = Inr wallet
      \<and> data (init wallet) =
          Cell (uint_bits 32 0 @ uint_bits 32 698983191 @ buffer_bits zero_key @ [False]) [] False
      \<and> decode_WalletState (data (init wallet)) =
          Inr \<lparr>ws_seqno = 0, ws_wallet_id = 698983191, ws_public_key = zero_key,
               ws_plugins_empty_flag = False\<rparr>)"
proof -
  note k = length_zero_key
  have f: "\<exists>cells. fromBoc example_deps WALLET_CODE_BASE64 = Inr cells"
    using example_decodes by blast
  have wc: "Num 0 = Num (- 1) \<or> Num 0 = Num 0" by simp
  note t = create_data_cell_layout [of "Num 0" zero_key example_deps Undefined, OF wc k]
  from t [THEN conjunct2] f
  obtain wallet where w: "create example_deps (Num 0) (Just zero_key) Undefined = Inr wallet"
    and s: "decode_WalletState (data (init wallet)) =
          Inr \<lparr>ws_seqno = 0, ws_wallet_id = 698983191, ws_public_key = zero_key,
               ws_plugins_empty_flag = False\<rparr>"
    by blast
  from t [THEN conjunct1, rule_format, OF w]
  obtain n where c: "data (init wallet) =
          Cell (uint_bits 32 0 @ uint_bits 32 n @ buffer_bits zero_key @ [False]) [] False"
    and s': "decode_WalletState (data (init wallet)) =
                   Inr \<lparr>ws_seqno = 0, ws_wallet_id = n, ws_public_key = zero_key,
                        ws_plugins_empty_flag = False\<rparr>"
    by blast
  from s s' have "n = 698983191" by simp
  with c have "data (init wallet) =
      Cell (uint_bits 32 0 @ uint_bits 32 698983191 @ buffer_bits zero_key @ [False]) [] False"
    by simp
  with w s k show ?thesis by blast
qed

text \<open>
  Claim C5. For workchain \<open>-1\<close> or \<open>0\<close> and a public key that is missing (\<^verbatim>\<open>null\<close> or
  \<^verbatim>\<open>undefined\<close>) or not exactly 32 bytes long, \<open>create\<close> throws the error
  \<^verbatim>\<open>Invalid public key: must be 32 bytes\<close> and returns no wallet, whatever the wallet id
  and the cell library.
\<close>

theorem create_rejects_bad_publicKey:
  assumes "wc = Num (- 1) \<or> wc = Num 0"
    and "key = Null \<or> key = Undefined \<or> (\<exists>pk. key = Just pk \<and> length pk \<noteq> 32)"
  shows "create tc wc key wid = Inl (Error ''Invalid public key: must be 32 bytes'')"
  using assms by (auto simp: create_def constructor_def)

theorem create_rejects_bad_publicKey_witness:
  "length (replicate 31 (0 :: byte)) \<noteq> 32
   \<and> create example_deps (Num 0) (Just (replicate 31 0)) Undefined =
       Inl (Error ''Invalid public key: must be 32 bytes'')
   \<and> create example_deps (Num (- 1)) Undefined (Just (Num 5)) =
       Inl (Error ''Invalid public key: must be 32 bytes'')"
  using create_rejects_bad_publicKey [of "Num 0" "Just (replicate 31 0)" example_deps Undefined]
    create_rejects_bad_publicKey [of "Num (- 1)" Undefined example_deps "Just (Num 5)"]
  by simp

text \<open>
  The guard of the constructor rejects every integer workchain other than \<open>-1\<close> and
  \<open>0\<close>.
\<close>

lemma create_rejects_integer_workchain:
  assumes "wc = Num (of_int i)" and "i \<noteq> - 1" and "i \<noteq> 0"
  shows "create tc wc key wid = Inl (Error ''Invalid workchain ID: must be -1 or 0'')"
proof -
  have "i < - 1 \<or> i > 0" using assms(2,3) by arith
  then have "(of_int i :: rat) < - 1 \<or> (of_int i :: rat) > 0"
    by (metis of_int_0_less_iff of_int_less_iff of_int_minus of_int_1)
  then show ?thesis using assms(1) by (auto simp: create_def constructor_def)
qed

text \<open>
  Claim C4 says that every workchain other than \<open>-1\<close> and \<open>0\<close> is rejected. The guard
  \<^verbatim>\<open>workchain < -1 || workchain > 0\<close> lets \<^verbatim>\<open>NaN\<close> and \<^verbatim>\<open>-0.5\<close> pass: with a key of 32
  bytes and wallet id 0, \<open>create\<close> returns a wallet whose workchain, and whose
  address's workchain, is that value.
\<close>

theorem create_accepts_non_integer_workchain:
  assumes "wc = NaN \<or> wc = Num (- 1 / 2)" and "length pk = 32"
    and "fromBoc tc WALLET_CODE_BASE64 = Inr cells"
  shows "\<exists>wallet. create tc wc (Just pk) (Just (Num 0)) = Inr wallet
           \<and> workchain wallet = wc \<and> a_workchain (address wallet) = wc"
proof -
  have d: "buildData (Num (of_nat 0)) pk =
      Inr (Cell (uint_bits 32 0 @ uint_bits 32 0 @ buffer_bits pk @ [False]) [] False)"
    by (rule buildData_ok) (use assms(2) in simp_all)
  show ?thesis
    using assms d
    by (auto simp: create_def constructor_def buildCode_ok contractAddress_def)
qed

theorem create_accepts_non_integer_workchain_witness:
  "length zero_key = 32
   \<and> (\<exists>wallet. create example_deps NaN (Just zero_key) (Just (Num 0)) = Inr wallet
         \<and> workchain wallet = NaN \<and> a_workchain (address wallet) = NaN)
   \<and> (\<exists>wallet. create example_deps (Num (- 1 / 2)) (Just zero_key) (Just (Num 0)) = Inr wallet
         \<and> workchain wallet = Num (- 1 / 2))"
proof -
  note k = length_zero_key and f = example_decodes
  show ?thesis
    using create_accepts_non_integer_workchain [of NaN zero_key example_deps, OF _ k f]
      create_accepts_non_integer_workchain [of "Num (- 1 / 2)" zero_key example_deps, OF _ k f] k
    by simp blast
qed

lemma create_address:
  assumes "create tc wc key wid = Inr wallet"
  shows "address wallet =
           contractAddress tc (workchain wallet) (code (init wallet)) (data (init wallet))"
  using create_Inr [OF assms] by auto

text \<open>
  Claim C8. \<open>create\<close> is a function of its three arguments and of the cell library
  alone: two calls with the same workchain, public key and wallet id that return
  wallets return the same wallet id, the same code and data cells and the same address.
  Moreover the address of a returned wallet is determined by its workchain and its code
  and data cells.
\<close>

theorem create_deterministic:
  assumes "create tc wc key wid = Inr a" and "create tc wc' key' wid' = Inr b"
  shows "(wc = wc' \<and> key = key' \<and> wid = wid' \<longrightarrow>
            walletId a = walletId b \<and> code (init a) = code (init b)
            \<and> data (init a) = data (init b) \<and> address a = address b)
       \<and> (workchain a = workchain b \<and> init a = init b \<longrightarrow> address a = address b)"
  using assms create_address [OF assms(1)] create_address [OF assms(2)] by auto

theorem create_deterministic_witness:
  "\<exists>a b. create example_deps (Num 0) (Just zero_key) Undefined = Inr a
      \<and> create example_deps (Num 0) (Just zero_key) Undefined = Inr b
      \<and> walletId a = walletId b \<and> code (init a) = code (init b)
      \<and> data (init a) = data (init b) \<and> address a = address b"
proof -
  from create_omitted [of 0 zero_key Undefined example_deps,
      OF _ length_zero_key _ example_decodes]
  obtain a where a: "create example_deps (Num 0) (Just zero_key) Undefined = Inr a"
    by auto
  from create_deterministic [OF a a] a show ?thesis by blast
qed

section \<open>Transfers: validation and delegation\<close>

text \<open>
  Claim C6. When the secret key is missing or not exactly 64 bytes long, or the
  messages are missing or empty, \<open>createTransfer\<close> throws one of its two validation
  errors and the record of calls is unchanged: the signer is not called.
\<close>

theorem createTransfer_validation:
  assumes "(\<forall>sk. secretKey args = Just sk \<longrightarrow> length sk \<noteq> 64)
         \<or> (\<forall>ms. messages args = Just ms \<longrightarrow> ms = [])"
  shows "snd (createTransfer tc this args w) = w
       \<and> (fst (createTransfer tc this args w) = Inl (Error ''Invalid secret key: must be 64 bytes'')
          \<or> fst (createTransfer tc this args w) = Inl (Error ''No messages to send''))"
  using assms
  by (cases "secretKey args"; cases "messages args") (auto simp: createTransfer_def)

theorem createTransfer_validation_witness:
  "createTransfer example_deps example_wallet (example_transfer\<lparr>messages := Just []\<rparr>) world0
     = (Inl (Error ''No messages to send''), world0)
   \<and> createTransfer example_deps example_wallet
        (example_transfer\<lparr>secretKey := Just (replicate 63 0)\<rparr>) world0
     = (Inl (Error ''Invalid secret key: must be 64 bytes''), world0)"
proof -
  have 1: "createTransfer example_deps example_wallet (example_transfer\<lparr>messages := Just []\<rparr>) world0
      = (Inl (Error ''No messages to send''), world0)"
    using createTransfer_validation [of "example_transfer\<lparr>messages := Just []\<rparr>"
        example_deps example_wallet world0]
    by (cases "createTransfer example_deps example_wallet (example_transfer\<lparr>messages := Just []\<rparr>) world0")
      (auto simp: example_transfer_def createTransfer_def)
  have 2: "createTransfer example_deps example_wallet
        (example_transfer\<lparr>secretKey := Just (replicate 63 0)\<rparr>) world0
     = (Inl (Error ''Invalid secret key: must be 64 bytes''), world0)"
    using createTransfer_validation [of "example_transfer\<lparr>secretKey := Just (replicate 63 0)\<rparr>"
        example_deps example_wallet world0]
    by (cases "createTransfer example_deps example_wallet
        (example_transfer\<lparr>secretKey := Just (replicate 63 0)\<rparr>) world0")
      (auto simp: example_transfer_def createTransfer_def)
  from 1 2 show ?thesis by simp
qed

lemma createTransfer_valid:
  assumes "secretKey args = Just sk" and "length sk = 64"
    and "messages args = Just ms" and "ms \<noteq> []"
  shows "createTransfer tc this args w =
           (let a = \<lparr>s_seqno = seqno args,
               s_sendMode = nullish (sendMode args) (PAY_GAS_SEPARATELY tc), s_secretKey = sk,
               s_messages = ms, s_timeout = timeout args, s_walletId = walletId this\<rparr>
            in (createWalletTransferV4 tc a,
                w\<lparr>calls := calls w @ [Call_createWalletTransferV4 a]\<rparr>))"
  using assms by (simp add: createTransfer_def)

text \<open>
  Claim C7. With a secret key of 64 bytes and a non-empty list of messages,
  \<open>createTransfer\<close> calls the signer exactly once and returns the signer's result as it
  is; the signer receives the caller's seqno, secret key, messages and timeout and the
  wallet's own wallet id.
\<close>

theorem createTransfer_delegates:
  assumes "secretKey args = Just sk" and "length sk = 64"
    and "messages args = Just ms" and "ms \<noteq> []"
  shows "\<exists>a. createTransfer tc this args w =
               (createWalletTransferV4 tc a, w\<lparr>calls := calls w @ [Call_createWalletTransferV4 a]\<rparr>)
           \<and> s_seqno a = seqno args \<and> s_secretKey a = sk \<and> s_messages a = ms
           \<and> s_timeout a = timeout args \<and> s_walletId a = walletId this"
  unfolding createTransfer_valid [OF assms] Let_def
  by (rule exI [where x = "\<lparr>s_seqno = seqno args,
               s_sendMode = nullish (sendMode args) (PAY_GAS_SEPARATELY tc), s_secretKey = sk,
               s_messages = ms, s_timeout = timeout args, s_walletId = walletId this\<rparr>"]) simp

theorem createTransfer_delegates_witness:
  "createTransfer example_deps example_wallet example_transfer world0 =
     (Inr (Cell [False] [] False),
      \<lparr>pstate = 0, calls = [Call_createWalletTransferV4
         \<lparr>s_seqno = Num 3, s_sendMode = Num 1, s_secretKey = replicate 64 0,
          s_messages = [1], s_timeout = Null, s_walletId = Num 698983191\<rparr>]\<rparr>)"
proof -
  from createTransfer_delegates [of example_transfer "replicate 64 0" "[1]" example_deps
      example_wallet world0]
  obtain a where a: "createTransfer example_deps example_wallet example_transfer world0 =
               (createWalletTransferV4 example_deps a,
                world0\<lparr>calls := calls world0 @ [Call_createWalletTransferV4 a]\<rparr>)"
    by (auto simp: example_transfer_def)
  then show ?thesis
    by (simp add: createTransfer_def example_transfer_def example_deps_def world0_def
        example_wallet_def)
qed

text \<open>
  Claim C10. With valid arguments, the send mode handed to the signer is
  \<^verbatim>\<open>SendMode.PAY_GAS_SEPARATELY\<close> when the caller's send mode is \<^verbatim>\<open>undefined\<close> or \<^verbatim>\<open>null\<close>,
  and the caller's send mode otherwise.
\<close>

theorem createTransfer_sendMode:
  assumes "secretKey args = Just sk" and "length sk = 64"
    and "messages args = Just ms" and "ms \<noteq> []"
  shows "\<exists>a. calls (snd (createTransfer tc this args w)) = calls w @ [Call_createWalletTransferV4 a]
           \<and> (sendMode args = Undefined \<or> sendMode args = Null \<longrightarrow>
                 s_sendMode a = PAY_GAS_SEPARATELY tc)
           \<and> (\<forall>m. sendMode args = Just m \<longrightarrow> s_sendMode a = m)"
  unfolding createTransfer_valid [OF assms] Let_def
  by (rule exI [where x = "\<lparr>s_seqno = seqno args,
               s_sendMode = nullish (sendMode args) (PAY_GAS_SEPARATELY tc), s_secretKey = sk,
               s_messages = ms, s_timeout = timeout args, s_walletId = walletId this\<rparr>"]) auto


theorem createTransfer_sendMode_witness:
  "(\<exists>a. calls (snd (createTransfer example_deps example_wallet example_transfer world0))
          = [Call_createWalletTransferV4 a] \<and> s_sendMode a = Num 1)
   \<and> (\<exists>a. calls (snd (createTransfer example_deps example_wallet
                 (example_transfer\<lparr>sendMode := Just (Num 0)\<rparr>) world0))
          = [Call_createWalletTransferV4 a] \<and> s_sendMode a = Num 0)"
proof -
  have "secretKey example_transfer = Just (replicate 64 0)" "messages example_transfer = Just [1]"
    "sendMode example_transfer = Undefined"
    by (simp_all add: example_transfer_def)
  then show ?thesis
    using createTransfer_sendMode [of example_transfer "replicate 64 0" "[1]" example_deps
        example_wallet world0]
      createTransfer_sendMode [of "example_transfer\<lparr>sendMode := Just (Num 0)\<rparr>"
        "replicate 64 0" "[1]" example_deps example_wallet world0]
    by (simp add: world0_def example_deps_def)
qed

section \<open>Calls to the provider\<close>

text \<open>
  Claim C9. When \<open>getState\<close> succeeds with a state whose type is not \<^verbatim>\<open>active\<close>,
  \<open>getSeqno\<close> returns 0 and its only call to the provider is that \<open>getState\<close>. When the
  type is \<^verbatim>\<open>active\<close>, it calls the get-method \<^verbatim>\<open>seqno\<close> with no arguments once, and
  returns the number read from the stack of its result.
\<close>

theorem getSeqno_by_state:
  assumes "getState provider (pstate w) = (Inr st, s1)"
  shows "(state_type st \<noteq> ''active'' \<longrightarrow>
            getSeqno tc provider w = (Inr (Num 0), \<lparr>pstate = s1, calls = calls w @ [Call_getState]\<rparr>))
       \<and> (state_type st = ''active'' \<longrightarrow>
            calls (snd (getSeqno tc provider w)) = calls w @ [Call_getState, Call_get ''seqno'' []]
            \<and> (\<forall>stack s2 n. get provider ''seqno'' [] s1 = (Inr stack, s2)
                  \<and> readNumber tc stack = Inr n \<longrightarrow>
                  getSeqno tc provider w =
                    (Inr n, \<lparr>pstate = s2, calls = calls w @ [Call_getState, Call_get ''seqno'' []]\<rparr>)))"
  using assms
  by (auto simp: getSeqno_def call_getState_def call_get_def rethrow_def split: prod.splits)

theorem getSeqno_by_state_witness:
  "getSeqno example_deps uninit_provider world0 =
     (Inr (Num 0), \<lparr>pstate = 1, calls = [Call_getState]\<rparr>)
   \<and> getSeqno example_deps active_provider world0 =
     (Inr (Num 7), \<lparr>pstate = 2, calls = [Call_getState, Call_get ''seqno'' []]\<rparr>)"
proof -
  have u: "getState uninit_provider (pstate world0) = (Inr \<lparr>balance = 0, state_type = ''uninit''\<rparr>, 1)"
    by (simp add: uninit_provider_def world0_def)
  have a: "getState active_provider (pstate world0) = (Inr \<lparr>balance = 5, state_type = ''active''\<rparr>, 1)"
    by (simp add: active_provider_def world0_def)
  have g: "get active_provider ''seqno'' [] 1 = (Inr 7, 2)"
    by (simp add: active_provider_def)
  have r: "readNumber example_deps 7 = Inr (Num 7)"
    by (simp add: example_deps_def)
  show ?thesis
    using getSeqno_by_state [OF u, of example_deps] getSeqno_by_state [OF a, of example_deps] g r
    by (simp add: world0_def)
qed

text \<open>
  Claim C3, amended. A failure of the provider inside \<open>getBalance\<close>, \<open>getSeqno\<close> or
  \<open>send\<close> is neither retried nor suppressed: after the one failing call the method
  fails. It fails with a new \<^verbatim>\<open>Error\<close> whose message is the context of the method
  followed by the message of the provider's error.
\<close>

theorem provider_failure_is_wrapped:
  "(getState provider (pstate w) = (Inl e, s1) \<longrightarrow>
      getBalance provider w =
        (Inl (Error (''Failed to get balance: '' @ err_message e)),
         \<lparr>pstate = s1, calls = calls w @ [Call_getState]\<rparr>)
      \<and> getSeqno tc provider w =
        (Inl (Error (''Failed to get seqno: '' @ err_message e)),
         \<lparr>pstate = s1, calls = calls w @ [Call_getState]\<rparr>))
   \<and> (getState provider (pstate w) = (Inr st, s1) \<and> state_type st = ''active''
        \<and> get provider ''seqno'' [] s1 = (Inl e, s2) \<longrightarrow>
      getSeqno tc provider w =
        (Inl (Error (''Failed to get seqno: '' @ err_message e)),
         \<lparr>pstate = s2, calls = calls w @ [Call_getState, Call_get ''seqno'' []]\<rparr>))
   \<and> (external provider message (pstate w) = (Inl e, s1) \<longrightarrow>
      send provider message w =
        (Inl (Error (''Failed to send message: '' @ err_message e)),
         \<lparr>pstate = s1, calls = calls w @ [Call_external message]\<rparr>))"
  by (auto simp: getBalance_def getSeqno_def send_def call_getState_def call_get_def
      call_external_def rethrow_def)

theorem provider_failure_is_wrapped_witness:
  "getBalance offline_provider world0 =
     (Inl (Error ''Failed to get balance: network down''), \<lparr>pstate = 1, calls = [Call_getState]\<rparr>)
   \<and> getSeqno example_deps offline_provider world0 =
     (Inl (Error ''Failed to get seqno: network down''), \<lparr>pstate = 1, calls = [Call_getState]\<rparr>)
   \<and> getSeqno example_deps flaky_provider world0 =
     (Inl (Error ''Failed to get seqno: network down''),
      \<lparr>pstate = 2, calls = [Call_getState, Call_get ''seqno'' []]\<rparr>)
   \<and> send offline_provider (Cell [] [] False) world0 =
     (Inl (Error ''Failed to send message: network down''),
      \<lparr>pstate = 1, calls = [Call_external (Cell [] [] False)]\<rparr>)"
proof -
  have o: "getState offline_provider (pstate world0) = (Inl network_down, 1)"
    "external offline_provider (Cell [] [] False) (pstate world0) = (Inl network_down, 1)"
    by (simp_all add: offline_provider_def world0_def)
  have f: "getState flaky_provider (pstate world0) = (Inr \<lparr>balance = 5, state_type = ''active''\<rparr>, 1)"
    "get flaky_provider ''seqno'' [] 1 = (Inl network_down, 2)"
    by (simp_all add: flaky_provider_def world0_def)
  have m: "err_message network_down = ''network down''"
    by (simp add: network_down_def)
  show ?thesis
    using provider_failure_is_wrapped [of offline_provider world0 network_down 1 example_deps _ _
        "Cell [] [] False"]
      provider_failure_is_wrapped [of flaky_provider world0 network_down 1 example_deps
        "\<lparr>balance = 5, state_type = ''active''\<rparr>" 2 "Cell [] [] False"]
      o f m
    by (simp add: world0_def)
qed

text \<open>
  Claim C3 as stated fails: the provider's \<^verbatim>\<open>TransportError\<close> does not reach the caller
  of \<open>getBalance\<close> unchanged.
\<close>

theorem transport_error_not_propagated_unchanged:
  "getState offline_provider (pstate world0) = (Inl (JsError ''TransportError'' ''network down''), 1)
   \<and> fst (getBalance offline_provider world0) \<noteq> Inl (JsError ''TransportError'' ''network down'')
   \<and> fst (getBalance offline_provider world0) = Inl (JsError ''Error'' ''Failed to get balance: network down'')"
  by (simp add: getBalance_def call_getState_def rethrow_def offline_provider_def world0_def
      network_down_def Error_def)

end
